theory Spec2Isabelle
  imports Complex_Main
begin

section \<open>Conventions of the embedding\<close>

text \<open>
  The program is a single Streamlit script (\<^verbatim>\<open>app.py\<close>); each module of the
  script is a branch of one \<^verbatim>\<open>if topic == ...\<close> chain that reads its widget
  values and computes a few closed-form quantities. Each branch is embedded as a
  function from the widget values to the computed quantities.

  Python \<^verbatim>\<open>float\<close> values are embedded as \<^typ>\<open>real\<close>: IEEE rounding is
  idealised away, so an equation proved here is the exact equation that the
  floating-point computation approximates. Python \<^verbatim>\<open>int\<close> values are
  \<^typ>\<open>int\<close>. An exception is a value \<open>Inl e\<close> of a sum type.

  The widgets fix the type and the range of every input. In
  \<^verbatim>\<open>st.number_input(label, 22000)\<close> the second positional argument is
  \<^verbatim>\<open>min_value\<close>, and the initial value defaults to it: the widget delivers
  an \<^verbatim>\<open>int\<close> that is at least 22000. \<^verbatim>\<open>st.slider(label, lo, hi, v)\<close>
  delivers a value between \<open>lo\<close> and \<open>hi\<close>, a \<^verbatim>\<open>float\<close> when the bounds
  are floats. \<^verbatim>\<open>st.number_input(label)\<close> without bounds delivers any float.
\<close>

datatype error = ZeroDivisionError | ValueError

section \<open>Scenario generation\<close>

text \<open>
  Modelled from the spec: \<^verbatim>\<open>np.linspace\<close> (the spec's generateScenario) is
  NumPy library code and not part of the script. The definition follows the
  spec's words "ordered sequence of floats, evenly spaced from lowFraction to
  highFraction inclusive" in the way NumPy computes it: the step is
  \<open>(stop - start) / (num - 1)\<close>, element \<open>i\<close> is \<open>i * step + start\<close>, and for
  more than one point the last element is overwritten with \<open>stop\<close>. A negative
  number of points raises \<^verbatim>\<open>ValueError\<close>; one point yields \<open>[start]\<close>.
\<close>

definition linspace :: "real \<Rightarrow> real \<Rightarrow> int \<Rightarrow> error + real list" where
  "linspace start stop num =
     (if num < 0 then Inl ValueError
      else let n = nat num;
               step = (if 1 < n then (stop - start) / real (n - 1) else 0);
               y = map (\<lambda>i. real i * step + start) [0..<n]
           in Inr (if 1 < n then y[n - 1 := stop] else y))"

section \<open>Hedge calculator\<close>

text \<open>
  Line 179, \<^verbatim>\<open>optimal_contracts = (beta * V) / (F * size)\<close>: a float divided by
  an integer product. Python raises \<^verbatim>\<open>ZeroDivisionError\<close> when the divisor is
  zero. The contract size is the local constant \<^verbatim>\<open>size = 50\<close> of the panel;
  the formula takes it as an argument and the panel passes 50.
\<close>

definition optimal_contracts :: "real \<Rightarrow> int \<Rightarrow> int \<Rightarrow> int \<Rightarrow> error + real" where
  "optimal_contracts beta V F msize =
     (if F * msize = 0 then Inl ZeroDivisionError
      else Inr ((beta * real_of_int V) / real_of_int (F * msize)))"

text \<open>Line 241 (module 6), \<^verbatim>\<open>N = (beta*V)/(F*50)\<close>.\<close>

definition N :: "real \<Rightarrow> int \<Rightarrow> int \<Rightarrow> error + real" where
  "N beta V F =
     (if F * 50 = 0 then Inl ZeroDivisionError
      else Inr ((beta * real_of_int V) / real_of_int (F * 50)))"

text \<open>
  Lines 183-193: the radio widget offers exactly three options; the first two are
  tested by name and every other selection takes the \<^verbatim>\<open>else\<close> branch.
\<close>

datatype hedge_type = Optimal_Hedge | Under_Hedge | Over_Hedge

definition contracts :: "hedge_type \<Rightarrow> real \<Rightarrow> real" where
  "contracts hedge_type oc =
     (if hedge_type = Optimal_Hedge then oc
      else if hedge_type = Under_Hedge then oc * 0.5
      else oc * 1.5)"

text \<open>
  Lines 200-202, the three vectorised expressions over the array \<^verbatim>\<open>moves\<close>:
  \<^verbatim>\<open>portfolio = V * beta * moves\<close>,
  \<^verbatim>\<open>futures = -contracts * size * F * moves\<close> and
  \<^verbatim>\<open>net = portfolio + futures\<close> (element-wise sum of two arrays of the
  same shape).
\<close>

record pnl_series =
  moves :: "real list"
  portfolio :: "real list"
  futures :: "real list"
  net :: "real list"

definition compute_pnl :: "int \<Rightarrow> real \<Rightarrow> real \<Rightarrow> int \<Rightarrow> int \<Rightarrow> real list \<Rightarrow> pnl_series" where
  "compute_pnl V beta cnt msize F ms =
     (let p = map (\<lambda>m. real_of_int V * beta * m) ms;
          f = map (\<lambda>m. - cnt * real_of_int msize * real_of_int F * m) ms;
          n = map2 (+) p f
      in \<lparr>moves = ms, portfolio = p, futures = f, net = n\<rparr>)"

text \<open>Module 8 (lines 326-327): the metric shown is \<^verbatim>\<open>corr*100\<close>.\<close>

definition effectiveness :: "real \<Rightarrow> real" where
  "effectiveness corr = corr * 100"

text \<open>
  Module 7 (lines 251-271): \<^verbatim>\<open>basis = spot - futures\<close> on two integer
  inputs, then the path is chosen by the market-structure radio button.
\<close>

datatype market_type = Contango | Backwardation

definition basis :: "int \<Rightarrow> int \<Rightarrow> int" where
  "basis spot fut = spot - fut"

definition basis_path :: "market_type \<Rightarrow> int \<Rightarrow> int \<Rightarrow> error + real list" where
  "basis_path market_type b days =
     (if market_type = Contango then linspace (real_of_int b) 0 days
      else linspace (real_of_int b) 0 days)"

section \<open>Quiz and certificate\<close>

text \<open>
  Module 13 (lines 645-701). The radio answers are the selected option strings,
  the numeric answers are floats. \<^verbatim>\<open>if c: score+=1\<close> is \<open>bump c\<close>.
\<close>

record quiz_answers =
  q1 :: string
  q2 :: string
  q3 :: real
  q4 :: real
  q5 :: real
  q6 :: string
  q7 :: string
  q8 :: string
  q9 :: string
  q10 :: real

definition bump :: "bool \<Rightarrow> int \<Rightarrow> int" where
  "bump c s = (if c then s + 1 else s)"

definition score :: "quiz_answers \<Rightarrow> int" where
  "score a =
     (let s = 0;
          s = bump (q1 a = ''Short'') s;
          s = bump (q2 a = ''Zero'') s;
          s = bump (\<bar>q3 a - 110\<bar> < 1) s;
          s = bump (\<bar>q4 a - 500\<bar> < 1) s;
          s = bump (\<bar>q5 a - 1\<bar> < 0.5) s;
          s = bump (q6 a = ''Credit risk'') s;
          s = bump (q7 a = ''Contango'') s;
          s = bump (q8 a = ''High'') s;
          s = bump (q9 a = ''Close & reopen'') s;
          s = bump (\<bar>q10 a - 200\<bar> < 1) s
      in s)"

text \<open>
  The certificate carries the name, the ID and the score (the date is read from
  the clock when the page is drawn and is not part of the model). Line 701:
  \<^verbatim>\<open>if score >= 5 and student_name and student_id\<close>; a Python string is
  truthy exactly when it is not empty.
\<close>

record certificate =
  cert_name :: string
  cert_id :: string
  cert_score :: int

definition submit_quiz :: "quiz_answers \<Rightarrow> string \<Rightarrow> string \<Rightarrow> int \<times> certificate option" where
  "submit_quiz a student_name student_id =
     (let sc = score a in
      if sc \<ge> 5 \<and> student_name \<noteq> [] \<and> student_id \<noteq> []
      then (sc, Some \<lparr>cert_name = student_name, cert_id = student_id, cert_score = sc\<rparr>)
      else (sc, None))"

text \<open>
  A submission with exactly five correct answers (questions 1, 2, 3, 4 and 7),
  the pass mark of the certificate.
\<close>

definition sample_answers :: quiz_answers where
  "sample_answers =
     \<lparr>q1 = ''Short'', q2 = ''Zero'', q3 = 110, q4 = 500, q5 = 20,
      q6 = ''Return'', q7 = ''Contango'', q8 = ''Low'', q9 = ''Hold'', q10 = 0\<rparr>"

section \<open>Auxiliary facts\<close>

lemma linspace_points:
  assumes "2 \<le> num"
  shows "linspace lo hi num
           = Inr (map (\<lambda>i. lo + real i * ((hi - lo) / real (nat num - 1))) [0..<nat num])"
proof -
  let ?n = "nat num"
  let ?step = "(hi - lo) / real (?n - 1)"
  let ?y = "map (\<lambda>i. real i * ?step + lo) [0..<?n]"
  have n: "1 < ?n" using assms by simp
  have "?y[?n - 1 := hi] = map (\<lambda>i. lo + real i * ?step) [0..<?n]"
  proof (rule nth_equalityI)
    show "length (?y[?n - 1 := hi]) = length (map (\<lambda>i. lo + real i * ?step) [0..<?n])"
      by simp
  next
    fix i assume "i < length (?y[?n - 1 := hi])"
    then have i: "i < ?n" by simp
    show "?y[?n - 1 := hi] ! i = map (\<lambda>i. lo + real i * ?step) [0..<?n] ! i"
    proof (cases "i = ?n - 1")
      case True
      have "real (?n - 1) * ?step = hi - lo" using n by simp
      then show ?thesis using True i by (simp add: algebra_simps)
    next
      case False
      then show ?thesis using i by (simp add: algebra_simps)
    qed
  qed
  then show ?thesis using assms n by (simp add: linspace_def Let_def)
qed

lemma compute_pnl_nth:
  assumes "i < length ms"
  shows "portfolio (compute_pnl V beta cnt msize F ms) ! i = real_of_int V * beta * (ms ! i)"
    and "futures (compute_pnl V beta cnt msize F ms) ! i
           = - cnt * real_of_int msize * real_of_int F * (ms ! i)"
    and "net (compute_pnl V beta cnt msize F ms) ! i
           = real_of_int V * beta * (ms ! i)
             + - cnt * real_of_int msize * real_of_int F * (ms ! i)"
  using assms by (simp_all add: compute_pnl_def Let_def)

lemma compute_pnl_length:
  "length (portfolio (compute_pnl V beta cnt msize F ms)) = length ms"
  "length (futures (compute_pnl V beta cnt msize F ms)) = length ms"
  "length (net (compute_pnl V beta cnt msize F ms)) = length ms"
  "moves (compute_pnl V beta cnt msize F ms) = ms"
  by (simp_all add: compute_pnl_def Let_def)

lemma bump_range: "lo \<le> s \<Longrightarrow> s \<le> hi \<Longrightarrow> lo \<le> bump c s \<and> bump c s \<le> hi + 1"
  by (simp add: bump_def)

lemma score_bounds: "0 \<le> score a \<and> score a \<le> 10"
proof -
  let ?s1 = "bump (q1 a = ''Short'') 0"
  let ?s2 = "bump (q2 a = ''Zero'') ?s1"
  let ?s3 = "bump (\<bar>q3 a - 110\<bar> < 1) ?s2"
  let ?s4 = "bump (\<bar>q4 a - 500\<bar> < 1) ?s3"
  let ?s5 = "bump (\<bar>q5 a - 1\<bar> < 0.5) ?s4"
  let ?s6 = "bump (q6 a = ''Credit risk'') ?s5"
  let ?s7 = "bump (q7 a = ''Contango'') ?s6"
  let ?s8 = "bump (q8 a = ''High'') ?s7"
  let ?s9 = "bump (q9 a = ''Close & reopen'') ?s8"
  let ?s10 = "bump (\<bar>q10 a - 200\<bar> < 1) ?s9"
  have "0 \<le> ?s1 \<and> ?s1 \<le> 1" using bump_range [of 0 0 0] by simp
  then have "0 \<le> ?s2 \<and> ?s2 \<le> 2" using bump_range [of 0 ?s1 1] by simp
  then have "0 \<le> ?s3 \<and> ?s3 \<le> 3" using bump_range [of 0 ?s2 2] by simp
  then have "0 \<le> ?s4 \<and> ?s4 \<le> 4" using bump_range [of 0 ?s3 3] by simp
  then have "0 \<le> ?s5 \<and> ?s5 \<le> 5" using bump_range [of 0 ?s4 4] by simp
  then have "0 \<le> ?s6 \<and> ?s6 \<le> 6" using bump_range [of 0 ?s5 5] by simp
  then have "0 \<le> ?s7 \<and> ?s7 \<le> 7" using bump_range [of 0 ?s6 6] by simp
  then have "0 \<le> ?s8 \<and> ?s8 \<le> 8" using bump_range [of 0 ?s7 7] by simp
  then have "0 \<le> ?s9 \<and> ?s9 \<le> 9" using bump_range [of 0 ?s8 8] by simp
  then have "0 \<le> ?s10 \<and> ?s10 \<le> 10" using bump_range [of 0 ?s9 9] by simp
  then show ?thesis unfolding score_def Let_def .
qed

lemma linspace_shape:
  assumes "2 \<le> num"
  shows "\<exists>ys. linspace lo hi num = Inr ys
           \<and> length ys = nat num
           \<and> ys ! 0 = lo
           \<and> last ys = hi
           \<and> (\<forall>i. Suc i < nat num
                 \<longrightarrow> ys ! Suc i - ys ! i = (hi - lo) / real (nat num - 1))
           \<and> (lo \<le> hi \<longrightarrow> sorted ys)"
proof -
  let ?n = "nat num"
  define st where "st = (hi - lo) / real (?n - 1)"
  let ?ys = "map (\<lambda>i. lo + real i * st) [0..<?n]"
  have n: "1 < ?n" using assms by simp
  have full: "real (?n - 1) * st = hi - lo" using n by (simp add: st_def)
  have eq: "linspace lo hi num = Inr ?ys"
    unfolding st_def by (rule linspace_points [OF assms])
  have len: "length ?ys = ?n" by simp
  have first: "?ys ! 0 = lo" using n by simp
  have "?ys \<noteq> []" using n by auto
  then have "last ?ys = ?ys ! (?n - 1)" by (simp add: last_conv_nth)
  also have "\<dots> = lo + real (?n - 1) * st" using n by simp
  also have "\<dots> = hi" by (simp only: full)
  finally have lst: "last ?ys = hi" .
  have gap: "?ys ! Suc i - ?ys ! i = st" if "Suc i < ?n" for i
    using that by (simp add: algebra_simps)
  have srt: "sorted ?ys" if "lo \<le> hi"
  proof -
    have st: "0 \<le> st" using that by (simp add: st_def)
    have "?ys ! i \<le> ?ys ! j" if "i \<le> j" "j < ?n" for i j
    proof -
      have "real i * st \<le> real j * st"
        using that(1) st by (intro mult_right_mono) simp_all
      then show ?thesis using that by simp
    qed
    then show ?thesis by (simp add: sorted_iff_nth_mono)
  qed
  from eq len first lst gap srt show ?thesis unfolding st_def by blast
qed

lemma sample_score: "score sample_answers = 5"
  by (simp add: score_def sample_answers_def bump_def)

section \<open>Optimal contract count\<close>

text \<open>
  C1. computeOptimalContracts returns
  (sensitivityCoefficient * notionalValue) / (referencePrice * multiplier).
  For every positive referencePrice, multiplier and notionalValue and
  sensitivityCoefficient 1.0 the computation returns a value (no exception) and
  that value multiplied by referencePrice and multiplier equals notionalValue.
  The same holds for the copy of the formula in module 6 with its multiplier 50.
  In exact arithmetic the equation is exact, hence within every tolerance.
\<close>

theorem optimal_contracts_formula:
  assumes "0 < F" and "0 < msize" and "0 < V"
  shows "optimal_contracts beta V F msize
           = Inr ((beta * real_of_int V) / (real_of_int F * real_of_int msize))
       \<and> (\<exists>c. optimal_contracts 1 V F msize = Inr c
             \<and> c * real_of_int F * real_of_int msize = real_of_int V)
       \<and> (\<exists>c. N 1 V F = Inr c \<and> c * real_of_int F * 50 = real_of_int V)"
  using assms by (simp add: optimal_contracts_def N_def)

theorem optimal_contracts_formula_witness:
  "(0::int) < 22000 \<and> (0::int) < 50 \<and> (0::int) < 5000000
   \<and> optimal_contracts 1 5000000 22000 50 = Inr (50 / 11)
   \<and> (50 / 11 :: real) * 22000 * 50 = 5000000
   \<and> N 1 5000000 22000 = Inr (50 / 11)"
proof -
  have F: "(0::int) < 22000" and m: "(0::int) < 50" and V: "(0::int) < 5000000"
    by simp_all
  from optimal_contracts_formula [OF F m V, of 1]
  have "optimal_contracts 1 5000000 22000 50 = Inr ((1 * real_of_int 5000000)
          / (real_of_int 22000 * real_of_int 50))"
    by blast
  then show ?thesis
    by (simp add: N_def)
qed

section \<open>Profit-and-loss series\<close>

text \<open>
  C2. For each move \<open>m\<close> of the scenario the series hold
  unhedgedPnL = notionalValue * sensitivityCoefficient * m,
  futuresPnL = - contractCount * multiplier * referencePrice * m and
  netPnL = unhedgedPnL + futuresPnL; the three sequences have the length of the
  scenario and are aligned with it by index. With a positive contract count,
  multiplier and price the futures leg is positive at a negative move: the short
  hedge profits when the price falls.
\<close>

theorem pnl_series_formulas:
  "length (portfolio (compute_pnl V beta cnt msize F ms)) = length ms
   \<and> length (futures (compute_pnl V beta cnt msize F ms)) = length ms
   \<and> length (net (compute_pnl V beta cnt msize F ms)) = length ms
   \<and> moves (compute_pnl V beta cnt msize F ms) = ms
   \<and> (\<forall>i < length ms.
         portfolio (compute_pnl V beta cnt msize F ms) ! i = real_of_int V * beta * (ms ! i)
       \<and> futures (compute_pnl V beta cnt msize F ms) ! i
           = - cnt * real_of_int msize * real_of_int F * (ms ! i)
       \<and> net (compute_pnl V beta cnt msize F ms) ! i
           = portfolio (compute_pnl V beta cnt msize F ms) ! i
             + futures (compute_pnl V beta cnt msize F ms) ! i
       \<and> (0 < cnt \<and> 0 < msize \<and> 0 < F \<and> ms ! i < 0
            \<longrightarrow> 0 < futures (compute_pnl V beta cnt msize F ms) ! i))"
proof -
  have "0 < futures (compute_pnl V beta cnt msize F ms) ! i"
    if "i < length ms" "0 < cnt" "0 < msize" "0 < F" "ms ! i < 0" for i
  proof -
    have "0 < cnt * real_of_int msize * real_of_int F" using that by simp
    then have "cnt * real_of_int msize * real_of_int F * (ms ! i) < 0"
      using that(5) by (simp add: mult_pos_neg)
    then show ?thesis using that(1) by (simp add: compute_pnl_nth)
  qed
  then show ?thesis
    by (simp add: compute_pnl_length compute_pnl_nth)
qed

theorem pnl_series_formulas_witness:
  "portfolio (compute_pnl 5000000 1 5 50 22000 [- 0.1, 0, 0.1]) = [- 500000, 0, 500000]
   \<and> futures (compute_pnl 5000000 1 5 50 22000 [- 0.1, 0, 0.1]) = [550000, 0, - 550000]
   \<and> net (compute_pnl 5000000 1 5 50 22000 [- 0.1, 0, 0.1]) = [50000, 0, - 50000]
   \<and> (0::nat) < length [- 0.1, 0, 0.1 :: real]
   \<and> (0::real) < 5 \<and> (0::int) < 50 \<and> (0::int) < 22000 \<and> [- 0.1, 0, 0.1 :: real] ! 0 < 0
   \<and> 0 < futures (compute_pnl 5000000 1 5 50 22000 [- 0.1, 0, 0.1]) ! 0"
proof -
  have "0 < futures (compute_pnl 5000000 1 5 50 22000 [- 0.1, 0, 0.1]) ! 0"
    using pnl_series_formulas [of 5000000 1 5 50 22000 "[- 0.1, 0, 0.1]"] by simp
  then show ?thesis by (simp add: compute_pnl_def)
qed

text \<open>
  C3. When the contract count is the value returned by the optimal-contract
  formula for the same beta, value, price and multiplier, the net P&L is 0 at
  every move of the scenario, so its absolute value is at most that of the
  unhedged P&L.
\<close>

theorem full_hedge_flattens:
  assumes "optimal_contracts beta V F msize = Inr c" and "i < length ms"
  shows "net (compute_pnl V beta c msize F ms) ! i = 0
       \<and> \<bar>net (compute_pnl V beta c msize F ms) ! i\<bar>
           \<le> \<bar>portfolio (compute_pnl V beta c msize F ms) ! i\<bar>"
proof -
  from assms(1) have nz: "F * msize \<noteq> 0"
    and c: "c = (beta * real_of_int V) / real_of_int (F * msize)"
    by (auto simp add: optimal_contracts_def split: if_splits)
  from nz have "real_of_int msize \<noteq> 0" "real_of_int F \<noteq> 0" by auto
  then have "c * real_of_int msize * real_of_int F = beta * real_of_int V"
    by (simp add: c)
  then have "real_of_int V * beta * (ms ! i)
          + - c * real_of_int msize * real_of_int F * (ms ! i) = 0"
    by (simp add: algebra_simps)
  then have "net (compute_pnl V beta c msize F ms) ! i = 0"
    using assms(2) by (simp only: compute_pnl_nth)
  then show ?thesis by simp
qed

theorem full_hedge_flattens_witness:
  "optimal_contracts 1 5000000 22000 50 = Inr (50 / 11)
   \<and> (0::nat) < length [- 0.1, 0, 0.1 :: real]
   \<and> \<bar>net (compute_pnl 5000000 1 (50 / 11) 50 22000 [- 0.1, 0, 0.1]) ! 0\<bar>
       \<le> \<bar>portfolio (compute_pnl 5000000 1 (50 / 11) 50 22000 [- 0.1, 0, 0.1]) ! 0\<bar>"
proof -
  have oc: "optimal_contracts 1 5000000 22000 50 = Inr (50 / 11)"
    by (simp add: optimal_contracts_def)
  have i: "(0::nat) < length [- 0.1, 0, 0.1 :: real]" by simp
  from full_hedge_flattens [OF oc i] oc i show ?thesis by blast
qed

text \<open>
  C4. At every index of the scenario whose move is 0, the unhedged, futures and
  net P&L are all exactly 0, whatever the other inputs are.
\<close>

theorem zero_move_zero_pnl:
  assumes "i < length ms" and "ms ! i = 0"
  shows "portfolio (compute_pnl V beta cnt msize F ms) ! i = 0
       \<and> futures (compute_pnl V beta cnt msize F ms) ! i = 0
       \<and> net (compute_pnl V beta cnt msize F ms) ! i = 0"
  using assms by (simp add: compute_pnl_nth)

theorem zero_move_zero_pnl_witness:
  "(1::nat) < length [- 0.1, 0, 0.1 :: real] \<and> [- 0.1, 0, 0.1 :: real] ! 1 = 0
   \<and> portfolio (compute_pnl 5000000 1 5 50 22000 [- 0.1, 0, 0.1]) ! 1 = 0
   \<and> futures (compute_pnl 5000000 1 5 50 22000 [- 0.1, 0, 0.1]) ! 1 = 0
   \<and> net (compute_pnl 5000000 1 5 50 22000 [- 0.1, 0, 0.1]) ! 1 = 0"
proof -
  have i: "(1::nat) < length [- 0.1, 0, 0.1 :: real]" by simp
  have z: "[- 0.1, 0, 0.1 :: real] ! 1 = 0" by simp
  from zero_move_zero_pnl [OF i z, of 5000000 1 5 50 22000] i z show ?thesis by blast
qed

section \<open>Hedge ratio\<close>

text \<open>
  C5. The contract count used is the optimal count times 1.0 for the optimal
  hedge, times 0.5 for the under hedge and times 1.5 for the over hedge; so the
  under-hedge count is 0.5 times, and the over-hedge count 1.5 times, the
  optimal-mode count.
\<close>

theorem hedge_ratio_factors:
  "contracts Optimal_Hedge oc = 1.0 * oc
   \<and> contracts Under_Hedge oc = 0.5 * oc
   \<and> contracts Over_Hedge oc = 1.5 * oc
   \<and> contracts Under_Hedge oc = 0.5 * contracts Optimal_Hedge oc
   \<and> contracts Over_Hedge oc = 1.5 * contracts Optimal_Hedge oc"
  by (simp add: contracts_def)

section \<open>Hedge effectiveness\<close>

text \<open>
  C6. The effectiveness percentage is correlation * 100: it is 0 at correlation
  0, 100 at correlation 1, strictly increasing on [0, 1] and stays within
  [0, 100] there.
\<close>

theorem effectiveness_linear:
  "effectiveness corr = corr * 100
   \<and> effectiveness 0 = 0
   \<and> effectiveness 1 = 100
   \<and> (\<forall>x y. 0 \<le> x \<and> x < y \<and> y \<le> 1 \<longrightarrow> effectiveness x < effectiveness y)
   \<and> (\<forall>x. 0 \<le> x \<and> x \<le> 1 \<longrightarrow> 0 \<le> effectiveness x \<and> effectiveness x \<le> 100)"
  by (simp add: effectiveness_def)

theorem effectiveness_linear_witness:
  "(0::real) \<le> 0.25 \<and> (0.25::real) < 0.8 \<and> (0.8::real) \<le> 1
   \<and> effectiveness 0.25 < effectiveness 0.8
   \<and> effectiveness 0.8 = 80"
  using effectiveness_linear [of "0.8"] by (simp add: effectiveness_def)

section \<open>Scenario shape\<close>

text \<open>
  C7. With at least two points the scenario generator returns (raises nothing)
  a sequence of exactly pointCount values that starts at lowFraction, ends at
  highFraction, has the same gap (highFraction - lowFraction) / (pointCount - 1)
  between every two neighbours, and is ascending when lowFraction is at most
  highFraction. For -0.1, 0.1 and three points it is [-0.1, 0.0, 0.1], and the
  net P&L computed on that scenario is 0 at index 1, whatever the other inputs.
\<close>

theorem generateScenario_evenly_spaced:
  "(2 \<le> num \<longrightarrow>
      (\<exists>ys. linspace lo hi num = Inr ys
           \<and> length ys = nat num
           \<and> ys ! 0 = lo
           \<and> last ys = hi
           \<and> (\<forall>i. Suc i < nat num
                 \<longrightarrow> ys ! Suc i - ys ! i = (hi - lo) / real (nat num - 1))
           \<and> (lo \<le> hi \<longrightarrow> sorted ys)))
   \<and> linspace (- 0.1) 0.1 3 = Inr [- 0.1, 0, 0.1]
   \<and> net (compute_pnl V beta cnt msize F [- 0.1, 0, 0.1]) ! 1 = 0"
proof -
  have "linspace (- 0.1) 0.1 3 = Inr [- 0.1, 0, 0.1]"
    by (simp add: linspace_def Let_def upt_rec)
  moreover have "net (compute_pnl V beta cnt msize F [- 0.1, 0, 0.1]) ! 1 = 0"
    by (simp add: compute_pnl_nth)
  ultimately show ?thesis using linspace_shape [of num lo hi] by blast
qed

theorem generateScenario_evenly_spaced_witness:
  "(2::int) \<le> 5
   \<and> linspace 0 1 5 = Inr [0, 0.25, 0.5, 0.75, 1]
   \<and> (\<exists>ys. linspace 0 1 5 = Inr ys \<and> length ys = 5 \<and> ys ! 0 = 0 \<and> last ys = 1
           \<and> sorted ys)"
proof -
  have "linspace 0 1 5 = Inr [0, 0.25, 0.5, 0.75, 1]"
    by (simp add: linspace_def Let_def upt_rec)
  then show ?thesis
    using generateScenario_evenly_spaced [of 5 0 1] by auto
qed

section \<open>Basis convergence path\<close>

text \<open>
  C9. The simulated basis path does not depend on the market-structure
  selection: the Contango and the Backwardation branch give the same result for
  every basis and every number of days, namely the evenly spaced path from the
  current basis (spot minus futures) down to 0 at the last day.
\<close>

theorem basis_path_ignores_market_type:
  "basis_path Contango (basis spot fut) days = basis_path Backwardation (basis spot fut) days
   \<and> basis_path market_type (basis spot fut) days
       = linspace (real_of_int (spot - fut)) 0 days
   \<and> (2 \<le> days \<longrightarrow>
        (\<exists>ys. basis_path market_type (basis spot fut) days = Inr ys
            \<and> length ys = nat days
            \<and> ys ! 0 = real_of_int (spot - fut)
            \<and> last ys = 0
            \<and> (\<forall>i. Suc i < nat days
                  \<longrightarrow> ys ! Suc i - ys ! i
                       = (0 - real_of_int (spot - fut)) / real (nat days - 1))))"
proof -
  have eq: "basis_path mt (basis spot fut) days = linspace (real_of_int (spot - fut)) 0 days"
    for mt
    by (simp add: basis_path_def basis_def)
  show ?thesis
    unfolding eq using linspace_shape [of days "real_of_int (spot - fut)" 0] by blast
qed

theorem basis_path_ignores_market_type_witness:
  "(2::int) \<le> 5
   \<and> basis_path Contango (basis 22000 22150) 5 = Inr [- 150, - 112.5, - 75, - 37.5, 0]
   \<and> basis_path Backwardation (basis 22000 22150) 5 = Inr [- 150, - 112.5, - 75, - 37.5, 0]"
proof -
  have "linspace (real_of_int (22000 - 22150)) 0 5 = Inr [- 150, - 112.5, - 75, - 37.5, 0]"
    by (simp add: linspace_def Let_def upt_rec)
  then show ?thesis
    using basis_path_ignores_market_type [of 22000 22150 5 Contango]
      basis_path_ignores_market_type [of 22000 22150 5 Backwardation]
    by simp
qed

section \<open>Quiz score and certificate gate\<close>

text \<open>
  C10. On submission the score is an integer between 0 and 10, and a certificate
  is produced exactly when the score is at least 5 and both the student name and
  the student ID are non-empty; a certificate that is produced carries that
  name, ID and score.
\<close>

theorem quiz_score_and_certificate:
  "fst (submit_quiz a student_name student_id) = score a
   \<and> 0 \<le> fst (submit_quiz a student_name student_id)
   \<and> fst (submit_quiz a student_name student_id) \<le> 10
   \<and> (snd (submit_quiz a student_name student_id) \<noteq> None
        \<longleftrightarrow> 5 \<le> score a \<and> student_name \<noteq> [] \<and> student_id \<noteq> [])
   \<and> (\<forall>c. snd (submit_quiz a student_name student_id) = Some c
        \<longrightarrow> cert_name c = student_name \<and> cert_id c = student_id
            \<and> cert_score c = score a)"
  using score_bounds [of a] by (auto simp add: submit_quiz_def Let_def)

theorem quiz_score_and_certificate_witness:
  "score sample_answers = 5
   \<and> snd (submit_quiz sample_answers ''Asha'' ''S1'')
       = Some \<lparr>cert_name = ''Asha'', cert_id = ''S1'', cert_score = 5\<rparr>
   \<and> snd (submit_quiz sample_answers [] ''S1'') = None
   \<and> snd (submit_quiz (sample_answers\<lparr>q1 := ''Long''\<rparr>) ''Asha'' ''S1'') = None"
proof -
  have s4: "score (sample_answers\<lparr>q1 := ''Long''\<rparr>) = 4"
    by (simp add: score_def sample_answers_def bump_def)
  have "snd (submit_quiz sample_answers ''Asha'' ''S1'') \<noteq> None"
    using quiz_score_and_certificate [of sample_answers "''Asha''" "''S1''"] sample_score
    by simp
  then show ?thesis
    using sample_score s4 by (simp add: submit_quiz_def Let_def)
qed

end
